theory Spec2Isabelle
  imports Complex_Main
begin

section \<open>Data model\<close>

text \<open>
  Modelled from the spec: the interfaces of \<^verbatim>\<open>src/types.ts\<close> (User, Property, Tenant,
  RentPayment, TodoItem) are not among the sources. The fields below are the ones that
  \<^verbatim>\<open>seedData.ts\<close>, \<^verbatim>\<open>db.ts\<close> and the views read and write. Every record of the source has a
  field \<^verbatim>\<open>id\<close>; here each field carries a prefix for its record (\<open>u_\<close>, \<open>p_\<close>, \<open>t_\<close>,
  \<open>r_\<close>, \<open>d_\<close>). A rent and an amount are finite JavaScript numbers, entered in forms that
  take decimals: each is the rational number that the double holds. What the arithmetic
  of the source makes of them is the subject of the next section. The \<^verbatim>\<open>date\<close> of a
  payment stays the string the source stores; its reading as a time is the parameter
  \<open>getTime\<close> of the functions that parse it.
\<close>

record user =
  u_id :: string
  u_username :: string
  u_password :: string
  u_name :: "string option"

record property =
  p_id :: string
  p_name :: string
  p_address :: string
  p_floors :: int
  p_rooms :: int
  p_archive :: bool

record tenant =
  t_id :: string
  t_name :: string
  t_rent :: rat
  t_leaseStart :: string
  t_leaseEnd :: string
  t_rentStatus :: string
  t_propertyId :: string
  t_floor :: int
  t_room :: string
  t_archive :: bool

record rentPayment =
  r_id :: string
  r_tenantId :: string
  r_amount :: rat
  r_date :: string
  r_status :: string
  r_month :: string
  r_archive :: bool

record todoItem =
  d_id :: string
  d_text :: string
  d_completed :: bool
  d_createdAt :: string

section \<open>JavaScript numbers\<close>









section \<open>Status derivation in the views\<close>

text \<open>
  \<^verbatim>\<open>Array.prototype.find\<close> is \<^const>\<open>find\<close> of the list library: the first element that
  satisfies the predicate, \<open>None\<close> for \<^verbatim>\<open>undefined\<close>.

  \<^verbatim>\<open>getPropertyArchivedStatus\<close> of TenantList.vue and of RentTracking.vue (the same text
  in both): \<^verbatim>\<open>property?.archive ?? false\<close>.
\<close>

definition getPropertyArchivedStatus :: "property list \<Rightarrow> string \<Rightarrow> bool" where
  "getPropertyArchivedStatus props propertyId =
     (case find (\<lambda>p. p_id p = propertyId) props of
        None \<Rightarrow> False
      | Some property \<Rightarrow> p_archive property)"

text \<open>\<^verbatim>\<open>isEffectivelyArchived\<close> of TenantList.vue.\<close>

definition isEffectivelyArchived :: "property list \<Rightarrow> tenant \<Rightarrow> bool" where
  "isEffectivelyArchived props tenant =
     (t_archive tenant \<or> getPropertyArchivedStatus props (t_propertyId tenant))"

text \<open>
  \<^verbatim>\<open>isTenantEffectivelyArchived\<close> of RentTracking.vue; its argument may be
  \<^verbatim>\<open>undefined\<close>, which counts as archived.
\<close>

definition isTenantEffectivelyArchived :: "property list \<Rightarrow> tenant option \<Rightarrow> bool" where
  "isTenantEffectivelyArchived props tenant =
     (case tenant of
        None \<Rightarrow> True
      | Some t \<Rightarrow> t_archive t \<or> getPropertyArchivedStatus props (t_propertyId t))"

text \<open>
  The two helpers of AlertsTodo.vue. The property lookup returns early on an empty
  snapshot and reads \<^verbatim>\<open>!!(property && property.archive)\<close>.
\<close>

definition getPropertyArchivedStatus_AlertsTodo :: "property list \<Rightarrow> string \<Rightarrow> bool" where
  "getPropertyArchivedStatus_AlertsTodo props propertyId =
     (if length props = 0 then False
      else (case find (\<lambda>p. p_id p = propertyId) props of
              None \<Rightarrow> False
            | Some property \<Rightarrow> p_archive property))"

definition isTenantEffectivelyArchived_AlertsTodo :: "property list \<Rightarrow> tenant option \<Rightarrow> bool" where
  "isTenantEffectivelyArchived_AlertsTodo props tenant =
     (case tenant of
        None \<Rightarrow> True
      | Some t \<Rightarrow> t_archive t \<or> getPropertyArchivedStatus_AlertsTodo props (t_propertyId t))"

section \<open>The repositories of db.ts\<close>

text \<open>
  The key-value store behind \<^verbatim>\<open>idb-keyval\<close>, as state passed through every operation:
  one list per key (a key that is absent or holds no array reads as the empty list, as
  \<^verbatim>\<open>get(key) || []\<close> and the \<^verbatim>\<open>Array.isArray\<close> test make it), the outcome of the one
  \<^verbatim>\<open>openDB()\<close> of the module (\<open>dbReady\<close>, fixed for the life of the process), and the log
  of the \<^verbatim>\<open>get\<close> and \<^verbatim>\<open>set\<close> calls made so far, so that "no storage write" can be stated.
  On an open database \<^verbatim>\<open>get\<close> and \<^verbatim>\<open>set\<close> themselves succeed.
\<close>

datatype db_call = Get string | Set string

record store =
  dbReady :: bool
  users :: "user list"
  properties :: "property list"
  tenants :: "tenant list"
  payments :: "rentPayment list"
  todos :: "todoItem list"
  calls :: "db_call list"

text \<open>
  What a function throws, and what a view tells the user with \<^verbatim>\<open>alert\<close>:
  \<^item> \<open>DatabaseConnectionFailed\<close>: \<^verbatim>\<open>throw new Error("Database connection failed.")\<close>;
  \<^item> \<open>MissingPaymentDetails\<close>: \<^verbatim>\<open>alert('Please fill in all payment details.')\<close>;
  \<^item> \<open>TenantArchived\<close>: \<^verbatim>\<open>alert('Cannot record or update payment for an archived tenant
    or a tenant in an archived property.')\<close>;
  \<^item> \<open>PartialNotBelowRent amount rent\<close>: the alert that a partial payment amount
    "cannot be equal to or exceed the full rent";
  \<^item> \<open>PaymentSaveFailed\<close>: the alert of the \<^verbatim>\<open>catch\<close> block, "Failed to add/update payment".
\<close>

datatype error =
    DatabaseConnectionFailed
  | MissingPaymentDetails
  | TenantArchived
  | PartialNotBelowRent rat rat
  | PaymentSaveFailed

text \<open>The result \<^verbatim>\<open>{ success: boolean; message?: string }\<close> of the user operations.\<close>

record opResult =
  success :: bool
  message :: "string option"

definition ensureDbReady :: "store \<Rightarrow> error + unit" where
  "ensureDbReady s = (if dbReady s then Inr () else Inl DatabaseConnectionFailed)"

definition logCall :: "db_call \<Rightarrow> store \<Rightarrow> store" where
  "logCall c s = s\<lparr>calls := calls s @ [c]\<rparr>"

text \<open>\<^verbatim>\<open>Array.prototype.findIndex\<close>: the first index, \<open>None\<close> for \<^verbatim>\<open>-1\<close>.\<close>

fun findIndex :: "('a \<Rightarrow> bool) \<Rightarrow> 'a list \<Rightarrow> nat option" where
  "findIndex P [] = None"
| "findIndex P (x # xs) = (if P x then Some 0 else map_option Suc (findIndex P xs))"

text \<open>
  \<^verbatim>\<open>String.prototype.toLowerCase\<close>. A HOL string holds the UTF-8 bytes of the JavaScript
  string. On a string of ASCII characters the result has \<^verbatim>\<open>a\<close> to \<^verbatim>\<open>z\<close> for \<^verbatim>\<open>A\<close> to
  \<^verbatim>\<open>Z\<close> and every other character as it was. On any other string the result comes from
  the Unicode case tables of the runtime, which are no part of the repository: it is the
  parameter \<open>unicodeLower\<close>, and what is proved holds for every such function.
\<close>

definition asciiLower :: "char \<Rightarrow> char" where
  "asciiLower c =
     (if 65 \<le> (of_char c :: nat) \<and> (of_char c :: nat) \<le> 90
      then char_of ((of_char c :: nat) + 32) else c)"

definition toLowerCase :: "(string \<Rightarrow> string) \<Rightarrow> string \<Rightarrow> string" where
  "toLowerCase unicodeLower str =
     (if list_all (\<lambda>c. (of_char c :: nat) < 128) str then map asciiLower str
      else unicodeLower str)"

subsection \<open>Users\<close>

definition db_getUsers :: "store \<Rightarrow> (error + user list) \<times> store" where
  "db_getUsers s =
     (case ensureDbReady s of
        Inl e \<Rightarrow> (Inl e, s)
      | Inr _ \<Rightarrow> (Inr (users s), logCall (Get ''users'') s))"

text \<open>
  \<^verbatim>\<open>addUser\<close> waits for the database outside its \<^verbatim>\<open>try\<close>; whatever is thrown inside is
  caught and answered with the registration message.
\<close>

definition db_addUser :: "(string \<Rightarrow> string) \<Rightarrow> user \<Rightarrow> store \<Rightarrow> (error + opResult) \<times> store" where
  "db_addUser unicodeLower usr s =
     (case ensureDbReady s of
        Inl e \<Rightarrow> (Inl e, s)
      | Inr _ \<Rightarrow>
          (case db_getUsers s of
             (Inl e, s1) \<Rightarrow>
               (Inr \<lparr>success = False,
                     message = Some ''An error occurred during registration.''\<rparr>, s1)
           | (Inr us, s1) \<Rightarrow>
               (case find (\<lambda>u. toLowerCase unicodeLower (u_username u)
                                 = toLowerCase unicodeLower (u_username usr)) us of
                  Some existingUser \<Rightarrow>
                    (Inr \<lparr>success = False, message = Some ''Username is already taken.''\<rparr>, s1)
                | None \<Rightarrow>
                    (Inr \<lparr>success = True, message = None\<rparr>,
                     logCall (Set ''users'') (s1\<lparr>users := us @ [usr]\<rparr>)))))"

definition db_updateUser :: "user \<Rightarrow> store \<Rightarrow> (error + opResult) \<times> store" where
  "db_updateUser updatedUser s =
     (case ensureDbReady s of
        Inl e \<Rightarrow> (Inl e, s)
      | Inr _ \<Rightarrow>
          (case db_getUsers s of
             (Inl e, s1) \<Rightarrow>
               (Inr \<lparr>success = False,
                     message = Some ''An error occurred while updating user details.''\<rparr>, s1)
           | (Inr us, s1) \<Rightarrow>
               (case findIndex (\<lambda>u. u_id u = u_id updatedUser) us of
                  None \<Rightarrow> (Inr \<lparr>success = False, message = Some ''User not found.''\<rparr>, s1)
                | Some index \<Rightarrow>
                    (Inr \<lparr>success = True, message = None\<rparr>,
                     logCall (Set ''users'') (s1\<lparr>users := us[index := updatedUser]\<rparr>)))))"

subsection \<open>Properties\<close>

definition db_getProperties :: "store \<Rightarrow> (error + property list) \<times> store" where
  "db_getProperties s =
     (case ensureDbReady s of
        Inl e \<Rightarrow> (Inl e, s)
      | Inr _ \<Rightarrow> (Inr (properties s), logCall (Get ''properties'') s))"

definition db_updateProperty :: "property \<Rightarrow> store \<Rightarrow> (error + unit) \<times> store" where
  "db_updateProperty prop s =
     (case ensureDbReady s of
        Inl e \<Rightarrow> (Inl e, s)
      | Inr _ \<Rightarrow>
          (case db_getProperties s of
             (Inl e, s1) \<Rightarrow> (Inl e, s1)
           | (Inr ps, s1) \<Rightarrow>
               (case findIndex (\<lambda>p. p_id p = p_id prop) ps of
                  Some index \<Rightarrow>
                    (Inr (), logCall (Set ''properties'') (s1\<lparr>properties := ps[index := prop]\<rparr>))
                | None \<Rightarrow> (Inr (), s1))))"

definition db_deleteProperty :: "string \<Rightarrow> store \<Rightarrow> (error + unit) \<times> store" where
  "db_deleteProperty ident s =
     (case ensureDbReady s of
        Inl e \<Rightarrow> (Inl e, s)
      | Inr _ \<Rightarrow>
          (case db_getProperties s of
             (Inl e, s1) \<Rightarrow> (Inl e, s1)
           | (Inr ps, s1) \<Rightarrow>
               (let initialLength = length ps;
                    filtered = filter (\<lambda>p. p_id p \<noteq> ident) ps
                in if length filtered < initialLength
                   then (Inr (), logCall (Set ''properties'') (s1\<lparr>properties := filtered\<rparr>))
                   else (Inr (), s1))))"

subsection \<open>Tenants\<close>

definition db_getTenants :: "store \<Rightarrow> (error + tenant list) \<times> store" where
  "db_getTenants s =
     (case ensureDbReady s of
        Inl e \<Rightarrow> (Inl e, s)
      | Inr _ \<Rightarrow> (Inr (tenants s), logCall (Get ''tenants'') s))"

definition db_updateTenant :: "tenant \<Rightarrow> store \<Rightarrow> (error + unit) \<times> store" where
  "db_updateTenant tnt s =
     (case ensureDbReady s of
        Inl e \<Rightarrow> (Inl e, s)
      | Inr _ \<Rightarrow>
          (case db_getTenants s of
             (Inl e, s1) \<Rightarrow> (Inl e, s1)
           | (Inr ts, s1) \<Rightarrow>
               (case findIndex (\<lambda>t. t_id t = t_id tnt) ts of
                  Some index \<Rightarrow>
                    (Inr (), logCall (Set ''tenants'') (s1\<lparr>tenants := ts[index := tnt]\<rparr>))
                | None \<Rightarrow> (Inr (), s1))))"

definition db_deleteTenant :: "string \<Rightarrow> store \<Rightarrow> (error + unit) \<times> store" where
  "db_deleteTenant ident s =
     (case ensureDbReady s of
        Inl e \<Rightarrow> (Inl e, s)
      | Inr _ \<Rightarrow>
          (case db_getTenants s of
             (Inl e, s1) \<Rightarrow> (Inl e, s1)
           | (Inr ts, s1) \<Rightarrow>
               (let initialLength = length ts;
                    filtered = filter (\<lambda>t. t_id t \<noteq> ident) ts
                in if length filtered < initialLength
                   then (Inr (), logCall (Set ''tenants'') (s1\<lparr>tenants := filtered\<rparr>))
                   else (Inr (), s1))))"

subsection \<open>Payments\<close>

definition db_getPayments :: "store \<Rightarrow> (error + rentPayment list) \<times> store" where
  "db_getPayments s =
     (case ensureDbReady s of
        Inl e \<Rightarrow> (Inl e, s)
      | Inr _ \<Rightarrow> (Inr (payments s), logCall (Get ''payments'') s))"

definition db_addPayment :: "rentPayment \<Rightarrow> store \<Rightarrow> (error + unit) \<times> store" where
  "db_addPayment payment s =
     (case ensureDbReady s of
        Inl e \<Rightarrow> (Inl e, s)
      | Inr _ \<Rightarrow>
          (case db_getPayments s of
             (Inl e, s1) \<Rightarrow> (Inl e, s1)
           | (Inr ps, s1) \<Rightarrow>
               (Inr (), logCall (Set ''payments'') (s1\<lparr>payments := ps @ [payment]\<rparr>))))"

definition db_updatePayment :: "rentPayment \<Rightarrow> store \<Rightarrow> (error + unit) \<times> store" where
  "db_updatePayment payment s =
     (case ensureDbReady s of
        Inl e \<Rightarrow> (Inl e, s)
      | Inr _ \<Rightarrow>
          (case db_getPayments s of
             (Inl e, s1) \<Rightarrow> (Inl e, s1)
           | (Inr ps, s1) \<Rightarrow>
               (case findIndex (\<lambda>p. r_id p = r_id payment) ps of
                  Some index \<Rightarrow>
                    (Inr (), logCall (Set ''payments'') (s1\<lparr>payments := ps[index := payment]\<rparr>))
                | None \<Rightarrow> (Inr (), s1))))"

definition db_deletePayment :: "string \<Rightarrow> store \<Rightarrow> (error + unit) \<times> store" where
  "db_deletePayment ident s =
     (case ensureDbReady s of
        Inl e \<Rightarrow> (Inl e, s)
      | Inr _ \<Rightarrow>
          (case db_getPayments s of
             (Inl e, s1) \<Rightarrow> (Inl e, s1)
           | (Inr ps, s1) \<Rightarrow>
               (let initialLength = length ps;
                    filtered = filter (\<lambda>p. r_id p \<noteq> ident) ps
                in if length filtered < initialLength
                   then (Inr (), logCall (Set ''payments'') (s1\<lparr>payments := filtered\<rparr>))
                   else (Inr (), s1))))"

subsection \<open>Todos\<close>

definition db_getTodos :: "store \<Rightarrow> (error + todoItem list) \<times> store" where
  "db_getTodos s =
     (case ensureDbReady s of
        Inl e \<Rightarrow> (Inl e, s)
      | Inr _ \<Rightarrow> (Inr (todos s), logCall (Get ''todos'') s))"

definition db_updateTodo :: "todoItem \<Rightarrow> store \<Rightarrow> (error + unit) \<times> store" where
  "db_updateTodo todo s =
     (case ensureDbReady s of
        Inl e \<Rightarrow> (Inl e, s)
      | Inr _ \<Rightarrow>
          (case db_getTodos s of
             (Inl e, s1) \<Rightarrow> (Inl e, s1)
           | (Inr ds, s1) \<Rightarrow>
               (case findIndex (\<lambda>t. d_id t = d_id todo) ds of
                  Some index \<Rightarrow>
                    (Inr (), logCall (Set ''todos'') (s1\<lparr>todos := ds[index := todo]\<rparr>))
                | None \<Rightarrow> (Inr (), s1))))"

definition db_deleteTodo :: "string \<Rightarrow> store \<Rightarrow> (error + unit) \<times> store" where
  "db_deleteTodo ident s =
     (case ensureDbReady s of
        Inl e \<Rightarrow> (Inl e, s)
      | Inr _ \<Rightarrow>
          (case db_getTodos s of
             (Inl e, s1) \<Rightarrow> (Inl e, s1)
           | (Inr ds, s1) \<Rightarrow>
               (let initialLength = length ds;
                    filtered = filter (\<lambda>t. d_id t \<noteq> ident) ds
                in if length filtered < initialLength
                   then (Inr (), logCall (Set ''todos'') (s1\<lparr>todos := filtered\<rparr>))
                   else (Inr (), s1))))"

section \<open>TenantList.vue\<close>

text \<open>The refs of the view that the functions below read: its snapshots of three collections.\<close>

record tenantList =
  tl_tenants :: "tenant list"
  tl_properties :: "property list"
  tl_payments :: "rentPayment list"

text \<open>
  \<^verbatim>\<open>Array.prototype.sort\<close> with a comparator that is consistent (it orders the elements
  of the list as a total preorder): the language fixes the result, the stable sort, which
  this insertion sort computes. \<open>insertBy\<close> puts \<open>x\<close>, which stood before the elements of
  the list, in front of the first element it does not have to follow. With a comparator
  that is not consistent the order is left to the engine; a caller whose comparator can
  be inconsistent takes the engine's result as a parameter.
\<close>

fun insertBy :: "('a \<Rightarrow> 'a \<Rightarrow> int) \<Rightarrow> 'a \<Rightarrow> 'a list \<Rightarrow> 'a list" where
  "insertBy cmp x [] = [x]"
| "insertBy cmp x (y # ys) = (if cmp x y \<le> 0 then x # y # ys else y # insertBy cmp x ys)"

definition sort_js :: "('a \<Rightarrow> 'a \<Rightarrow> int) \<Rightarrow> 'a list \<Rightarrow> 'a list" where
  "sort_js cmp xs = foldr (insertBy cmp) xs []"

text \<open>
  The comparator \<^verbatim>\<open>(a, b) => new Date(b.date).getTime() - new Date(a.date).getTime()\<close>.
  \<open>getTime\<close> reads a date string as milliseconds, \<open>None\<close> for an invalid date, whose
  time is \<^verbatim>\<open>NaN\<close>; a difference that is \<^verbatim>\<open>NaN\<close> counts as \<open>0\<close> in a sort. On payments
  whose dates are all valid the comparator is consistent.
\<close>

definition compareDateDesc :: "(string \<Rightarrow> int option) \<Rightarrow> rentPayment \<Rightarrow> rentPayment \<Rightarrow> int" where
  "compareDateDesc getTime a b =
     (case (getTime (r_date b), getTime (r_date a)) of
        (Some tb, Some ta) \<Rightarrow> tb - ta
      | _ \<Rightarrow> 0)"

text \<open>
  \<^verbatim>\<open>getLatestRentStatus\<close>. When a payment of the tenant has an invalid date, the order
  of the sorted list is the engine's: \<open>engineSort\<close> gives it.
\<close>

definition getLatestRentStatus :: "(string \<Rightarrow> int option) \<Rightarrow> (rentPayment list \<Rightarrow> rentPayment list) \<Rightarrow> tenantList \<Rightarrow> string \<Rightarrow> string" where
  "getLatestRentStatus getTime engineSort v tenantId =
     (case find (\<lambda>t. t_id t = tenantId) (tl_tenants v) of
        None \<Rightarrow> ''n/a''
      | Some tenantObj \<Rightarrow>
          if isEffectivelyArchived (tl_properties v) tenantObj then ''archive''
          else (let filtered = filter (\<lambda>p. r_tenantId p = tenantId) (tl_payments v);
                    tenantPayments =
                      (if list_all (\<lambda>p. getTime (r_date p) \<noteq> None) filtered
                       then sort_js (compareDateDesc getTime) filtered
                       else engineSort filtered)
                in case tenantPayments of
                     latest # _ \<Rightarrow> r_status latest
                   | [] \<Rightarrow> ''no payments''))"

text \<open>
  \<^verbatim>\<open>getRentStatusClass\<close>, reduced to the one class it gives the archived status: the
  colours \<^verbatim>\<open>bg-gray-400 text-white\<close> apply when the lower-cased status is \<^verbatim>\<open>'archived'\<close>.
\<close>

definition rentStatusClass_archived :: "(string \<Rightarrow> string) \<Rightarrow> string option \<Rightarrow> bool" where
  "rentStatusClass_archived unicodeLower status =
     ((case status of None \<Rightarrow> ''n/a'' | Some st \<Rightarrow> toLowerCase unicodeLower st) = ''archived'')"

text \<open>The loop \<^verbatim>\<open>for (const payment of associatedPayments) await db.deletePayment(payment.id)\<close>.\<close>

fun deletePayments :: "rentPayment list \<Rightarrow> store \<Rightarrow> (error + unit) \<times> store" where
  "deletePayments [] s = (Inr (), s)"
| "deletePayments (payment # rest) s =
     (case db_deletePayment (r_id payment) s of
        (Inl e, s1) \<Rightarrow> (Inl e, s1)
      | (Inr _, s1) \<Rightarrow> deletePayments rest s1)"

text \<open>The last three statements of \<^verbatim>\<open>deleteTenant\<close>: delete the record, fetch both lists again.\<close>

definition deleteTenant_record :: "string \<Rightarrow> tenantList \<Rightarrow> store \<Rightarrow> (error + unit) \<times> tenantList \<times> store" where
  "deleteTenant_record ident v s =
     (case db_deleteTenant ident s of
        (Inl e, s1) \<Rightarrow> (Inl e, v, s1)
      | (Inr _, s1) \<Rightarrow>
          (case db_getTenants s1 of
             (Inl e, s2) \<Rightarrow> (Inl e, v, s2)
           | (Inr ts, s2) \<Rightarrow>
               (case db_getPayments s2 of
                  (Inl e, s3) \<Rightarrow> (Inl e, v\<lparr>tl_tenants := ts\<rparr>, s3)
                | (Inr ps, s3) \<Rightarrow> (Inr (), v\<lparr>tl_tenants := ts, tl_payments := ps\<rparr>, s3))))"

text \<open>
  \<^verbatim>\<open>deleteTenant\<close> of the view. \<open>confirmDelete\<close> is the user's answer to the one
  \<^verbatim>\<open>confirm\<close> dialog the function opens. The function catches nothing: an error of the
  repository is the result.
\<close>

definition deleteTenant :: "bool \<Rightarrow> string \<Rightarrow> tenantList \<Rightarrow> store \<Rightarrow> (error + unit) \<times> tenantList \<times> store" where
  "deleteTenant confirmDelete ident v s =
     (case find (\<lambda>t. t_id t = ident) (tl_tenants v) of
        None \<Rightarrow> (Inr (), v, s)
      | Some tenantToDelete \<Rightarrow>
          (let associatedPayments = filter (\<lambda>p. r_tenantId p = ident) (tl_payments v)
           in if length associatedPayments > 0
              then (if \<not> confirmDelete then (Inr (), v, s)
                    else (case deletePayments associatedPayments s of
                            (Inl e, s1) \<Rightarrow> (Inl e, v, s1)
                          | (Inr _, s1) \<Rightarrow> deleteTenant_record ident v s1))
              else (if \<not> confirmDelete then (Inr (), v, s)
                    else deleteTenant_record ident v s)))"

section \<open>RentTracking.vue\<close>

text \<open>
  The form \<^verbatim>\<open>newPayment\<close> is a \<^verbatim>\<open>Partial<RentPayment>\<close>: every field may be missing.
\<close>

record paymentDraft =
  n_id :: "string option"
  n_tenantId :: "string option"
  n_amount :: "rat option"
  n_date :: "string option"
  n_status :: "string option"
  n_month :: "string option"
  n_archive :: "bool option"

record rentTracking =
  rt_payments :: "rentPayment list"
  rt_tenants :: "tenant list"
  rt_properties :: "property list"
  showAddModal :: bool
  isEditingPayment :: bool
  editingPaymentId :: "string option"
  newPayment :: paymentDraft

text \<open>
  What the function reads from the browser: the answer to its \<^verbatim>\<open>confirm\<close> dialog, the
  result of \<^verbatim>\<open>crypto.randomUUID()\<close>, and today's date and month name for the form's
  defaults.
\<close>

record browser =
  confirmAnswer :: bool
  randomUUID :: string
  todayDate :: string
  todayMonth :: string

text \<open>\<^verbatim>\<open>!x\<close> for a string that may be missing: true for \<^verbatim>\<open>undefined\<close> and for \<^verbatim>\<open>''\<close>.\<close>

definition falsy :: "string option \<Rightarrow> bool" where
  "falsy x = (case x of None \<Rightarrow> True | Some str \<Rightarrow> str = [])"

definition resetPaymentModal :: "browser \<Rightarrow> rentTracking \<Rightarrow> rentTracking" where
  "resetPaymentModal env v =
     v\<lparr>showAddModal := False, isEditingPayment := False, editingPaymentId := None,
       newPayment := \<lparr>n_id = None, n_tenantId = Some [], n_amount = Some 0,
                      n_date = Some (todayDate env), n_status = Some ''paid'',
                      n_month = Some (todayMonth env), n_archive = Some False\<rparr>\<rparr>"

text \<open>
  \<^verbatim>\<open>addOrUpdatePayment\<close>. The result is \<open>Inl\<close> of the alert with which the function
  gives up, and \<open>Inr ()\<close> when it returns without one (the payment was stored, or the user
  declined to record a paid amount that differs from the rent). Whatever the repository
  throws is caught and alerted.
\<close>

definition addOrUpdatePayment :: "browser \<Rightarrow> rentTracking \<Rightarrow> store \<Rightarrow> (error + unit) \<times> rentTracking \<times> store" where
  "addOrUpdatePayment env v s =
     (if falsy (n_tenantId (newPayment v)) \<or> n_amount (newPayment v) = None
         \<or> falsy (n_date (newPayment v)) \<or> falsy (n_status (newPayment v))
         \<or> falsy (n_month (newPayment v))
      then (Inl MissingPaymentDetails, v, s)
      else
        (case (n_tenantId (newPayment v), n_amount (newPayment v), n_date (newPayment v),
               n_status (newPayment v), n_month (newPayment v)) of
           (Some tenantId, Some amount, Some date, Some status, Some month) \<Rightarrow>
             (case find (\<lambda>t. t_id t = tenantId) (rt_tenants v) of
                None \<Rightarrow> (Inl TenantArchived, v, s)
              | Some selectedTenant \<Rightarrow>
                  if isTenantEffectivelyArchived (rt_properties v) (Some selectedTenant)
                  then (Inl TenantArchived, v, s)
                  else if status = ''partial'' \<and> amount \<ge> t_rent selectedTenant
                  then (Inl (PartialNotBelowRent amount (t_rent selectedTenant)), v, s)
                  else if status = ''paid'' \<and> amount \<noteq> t_rent selectedTenant
                          \<and> \<not> confirmAnswer env
                  then (Inr (), v, s)
                  else
                    (let payment =
                           \<lparr>r_id = (if isEditingPayment v \<and> \<not> falsy (editingPaymentId v)
                                    then (case editingPaymentId v of
                                            Some ident \<Rightarrow> ident
                                          | None \<Rightarrow> randomUUID env)
                                    else randomUUID env),
                            r_tenantId = tenantId, r_amount = amount, r_date = date,
                            r_status = status, r_month = month,
                            r_archive = (case n_archive (newPayment v) of
                                           None \<Rightarrow> False
                                         | Some a \<Rightarrow> a)\<rparr>
                     in case (if isEditingPayment v then db_updatePayment payment s
                              else db_addPayment payment s) of
                          (Inl e, s1) \<Rightarrow> (Inl PaymentSaveFailed, v, s1)
                        | (Inr _, s1) \<Rightarrow>
                            (case db_getPayments s1 of
                               (Inl e, s2) \<Rightarrow> (Inl PaymentSaveFailed, v, s2)
                             | (Inr ps, s2) \<Rightarrow>
                                 (Inr (), resetPaymentModal env (v\<lparr>rt_payments := ps\<rparr>), s2))))
         | _ \<Rightarrow> (Inl MissingPaymentDetails, v, s)))"

section \<open>AlertsTodo.vue\<close>




section \<open>Notions of the specification\<close>

text \<open>The five collections of a store, without the call log.\<close>

definition collections :: "store \<Rightarrow> user list \<times> property list \<times> tenant list \<times> rentPayment list \<times> todoItem list" where
  "collections s = (users s, properties s, tenants s, payments s, todos s)"

text \<open>Two users have the same username when the lower-cased names agree, as \<^verbatim>\<open>addUser\<close> compares them.\<close>

definition sameUsername :: "(string \<Rightarrow> string) \<Rightarrow> user \<Rightarrow> user \<Rightarrow> bool" where
  "sameUsername unicodeLower a b =
     (toLowerCase unicodeLower (u_username a) = toLowerCase unicodeLower (u_username b))"

text \<open>
  The tenant a payment form selects, as \<^verbatim>\<open>addOrUpdatePayment\<close> looks it up, and whether
  the form passes the function's first test (every detail present).
\<close>

definition selectedTenant :: "rentTracking \<Rightarrow> tenant option" where
  "selectedTenant v = find (\<lambda>t. Some (t_id t) = n_tenantId (newPayment v)) (rt_tenants v)"

definition detailsFilled :: "rentTracking \<Rightarrow> bool" where
  "detailsFilled v =
     (\<not> falsy (n_tenantId (newPayment v)) \<and> n_amount (newPayment v) \<noteq> None
      \<and> \<not> falsy (n_date (newPayment v)) \<and> \<not> falsy (n_status (newPayment v))
      \<and> \<not> falsy (n_month (newPayment v)))"









text \<open>The time of a payment whose date is valid.\<close>

definition timeOf :: "(string \<Rightarrow> int option) \<Rightarrow> rentPayment \<Rightarrow> int" where
  "timeOf getTime p = (case getTime (r_date p) of Some t \<Rightarrow> t | None \<Rightarrow> 0)"

text \<open>A step that leaves the database open and touches neither users, properties nor todos.\<close>

definition othersKept :: "store \<Rightarrow> store \<Rightarrow> bool" where
  "othersKept s s' =
     (dbReady s' = dbReady s \<and> users s' = users s \<and> properties s' = properties s
      \<and> todos s' = todos s)"

section \<open>Sample data\<close>

text \<open>Sample records, after \<^verbatim>\<open>seedData.ts\<close>.\<close>

definition seedProperty :: property where
  "seedProperty = \<lparr>p_id = ''prop-001'', p_name = ''Ocean View Condo'',
     p_address = ''456 Beach Rd, Coast City'', p_floors = 1, p_rooms = 1, p_archive = False\<rparr>"

definition seedTenant :: tenant where
  "seedTenant = \<lparr>t_id = ''1'', t_name = ''Diana Prince'', t_rent = 950,
     t_leaseStart = ''2023-02-01'', t_leaseEnd = ''2024-01-31'',
     t_rentStatus = ''contract expired'', t_propertyId = ''prop-001'', t_floor = 1,
     t_room = ''1'', t_archive = False\<rparr>"

definition seedPayment :: rentPayment where
  "seedPayment = \<lparr>r_id = ''pay-001'', r_tenantId = ''1'', r_amount = 1200,
     r_date = ''2024-01-05'', r_status = ''paid'', r_month = ''January'', r_archive = False\<rparr>"

definition seedUser :: user where
  "seedUser = \<lparr>u_id = ''user-001'', u_username = ''testuser'', u_password = ''password123'',
     u_name = Some ''Test User''\<rparr>"

definition seedTodo :: todoItem where
  "seedTodo = \<lparr>d_id = ''todo-001'', d_text = ''Prepare new property for new tenants.'',
     d_completed = False, d_createdAt = ''2024-01-03''\<rparr>"

definition seedStore :: store where
  "seedStore = \<lparr>dbReady = True, users = [seedUser], properties = [seedProperty],
     tenants = [seedTenant], payments = [seedPayment], todos = [seedTodo], calls = []\<rparr>"

definition emptyStore :: store where
  "emptyStore = \<lparr>dbReady = True, users = [], properties = [], tenants = [], payments = [],
     todos = [], calls = []\<rparr>"

text \<open>
  Dates of February 2024 and their times in milliseconds (UTC), the two ends of that
  month, and two partial payments of the sample tenant in it.
\<close>

definition sampleTimes :: "string \<Rightarrow> int option" where
  "sampleTimes = map_of [(''2024-01-05'', 1704412800000), (''2024-02-05'', 1707091200000),
     (''2024-02-20'', 1708387200000)]"



definition febPayments :: "rentPayment list" where
  "febPayments =
     [seedPayment,
      \<lparr>r_id = ''pay-002'', r_tenantId = ''1'', r_amount = 500, r_date = ''2024-02-05'',
       r_status = ''partial'', r_month = ''February'', r_archive = False\<rparr>,
      \<lparr>r_id = ''pay-003'', r_tenantId = ''1'', r_amount = 450, r_date = ''2024-02-20'',
       r_status = ''partial'', r_month = ''February'', r_archive = False\<rparr>]"


definition sampleList :: tenantList where
  "sampleList = \<lparr>tl_tenants = [seedTenant], tl_properties = [seedProperty],
     tl_payments = [seedPayment]\<rparr>"

definition sampleBrowser :: browser where
  "sampleBrowser = \<lparr>confirmAnswer = True, randomUUID = ''pay-004'',
     todayDate = ''2024-02-20'', todayMonth = ''February''\<rparr>"

definition sampleForm :: paymentDraft where
  "sampleForm = \<lparr>n_id = None, n_tenantId = Some ''1'', n_amount = Some 950,
     n_date = Some ''2024-02-20'', n_status = Some ''paid'', n_month = Some ''February'',
     n_archive = Some False\<rparr>"

definition sampleTracking :: rentTracking where
  "sampleTracking = \<lparr>rt_payments = [seedPayment], rt_tenants = [seedTenant],
     rt_properties = [seedProperty], showAddModal = True, isEditingPayment = False,
     editingPaymentId = None, newPayment = sampleForm\<rparr>"

text \<open>
  A store with a second tenant and a payment of that tenant, and a tenant list whose
  snapshots are the stored collections.
\<close>

definition cascadeStore :: store where
  "cascadeStore = seedStore\<lparr>tenants := [seedTenant, seedTenant\<lparr>t_id := ''2''\<rparr>],
     payments := febPayments @ [seedPayment\<lparr>r_id := ''pay-009'', r_tenantId := ''2''\<rparr>]\<rparr>"

definition cascadeList :: tenantList where
  "cascadeList = \<lparr>tl_tenants = tenants cascadeStore, tl_properties = [seedProperty],
     tl_payments = payments cascadeStore\<rparr>"

text \<open>
  The same tenant list with a copy of the payments taken before the February payments
  were recorded.
\<close>

definition staleList :: tenantList where
  "staleList = cascadeList\<lparr>tl_payments := [seedPayment]\<rparr>"



section \<open>Effective archival status\<close>

lemma getPropertyArchivedStatus_AlertsTodo_eq:
  "getPropertyArchivedStatus_AlertsTodo props propertyId =
   getPropertyArchivedStatus props propertyId"
  by (cases props)
     (simp_all add: getPropertyArchivedStatus_AlertsTodo_def getPropertyArchivedStatus_def)

lemma find_None_iff_not_in_ids:
  "(find (\<lambda>p. f p = k) xs = None) = (k \<notin> f ` set xs)"
  by (induction xs) auto

lemma getPropertyArchivedStatus_missing:
  "propertyId \<notin> p_id ` set props \<Longrightarrow> \<not> getPropertyArchivedStatus props propertyId"
  by (simp add: getPropertyArchivedStatus_def find_None_iff_not_in_ids [THEN iffD2])

text \<open>
  C1. The effective archival status of a tenant is its own flag or the archived status of
  the property it names, in all three views. So a tenant whose own flag is set is
  effectively archived whatever the properties are, and a tenant whose \<^verbatim>\<open>propertyId\<close>
  resolves to a property that is not archived is effectively archived exactly when its
  own flag is set.
\<close>

theorem tenantEffectivelyArchived_is_flag_or_property:
  "isEffectivelyArchived props t =
     (t_archive t \<or> getPropertyArchivedStatus props (t_propertyId t))
   \<and> isTenantEffectivelyArchived props (Some t) = isEffectivelyArchived props t
   \<and> isTenantEffectivelyArchived_AlertsTodo props (Some t) = isEffectivelyArchived props t
   \<and> (t_archive t \<longrightarrow> isEffectivelyArchived props t)
   \<and> (\<forall>p. find (\<lambda>p. p_id p = t_propertyId t) props = Some p \<and> \<not> p_archive p
        \<longrightarrow> isEffectivelyArchived props t = t_archive t)"
  by (simp add: isEffectivelyArchived_def isTenantEffectivelyArchived_def
      isTenantEffectivelyArchived_AlertsTodo_def getPropertyArchivedStatus_AlertsTodo_eq
      getPropertyArchivedStatus_def)

theorem tenantEffectivelyArchived_is_flag_or_property_witness:
  "t_archive (seedTenant\<lparr>t_archive := True\<rparr>)
   \<and> isEffectivelyArchived [seedProperty\<lparr>p_archive := False\<rparr>] (seedTenant\<lparr>t_archive := True\<rparr>)
   \<and> find (\<lambda>p. p_id p = t_propertyId seedTenant) [seedProperty] = Some seedProperty
   \<and> \<not> p_archive seedProperty
   \<and> isEffectivelyArchived [seedProperty] seedTenant = t_archive seedTenant"
proof -
  have a: "t_archive (seedTenant\<lparr>t_archive := True\<rparr>)"
    by simp
  have f: "find (\<lambda>p. p_id p = t_propertyId seedTenant) [seedProperty] = Some seedProperty"
    by (simp add: seedProperty_def seedTenant_def)
  have n: "\<not> p_archive seedProperty"
    by (simp add: seedProperty_def)
  have 1: "isEffectivelyArchived [seedProperty\<lparr>p_archive := False\<rparr>] (seedTenant\<lparr>t_archive := True\<rparr>)"
    using a tenantEffectivelyArchived_is_flag_or_property
            [of "[seedProperty\<lparr>p_archive := False\<rparr>]" "seedTenant\<lparr>t_archive := True\<rparr>"]
    by blast
  have 2: "isEffectivelyArchived [seedProperty] seedTenant = t_archive seedTenant"
    using f n tenantEffectivelyArchived_is_flag_or_property [of "[seedProperty]" seedTenant]
    by blast
  show ?thesis
    using a f n 1 2 by blast
qed

text \<open>
  C2, as stated, fails: a tenant whose own flag is not set and whose \<^verbatim>\<open>propertyId\<close>
  matches no property of the snapshot is not effectively archived, in TenantList.vue as in
  AlertsTodo.vue. The property lookup answers \<^verbatim>\<open>false\<close> for a missing property.
\<close>

theorem missing_property_counterexample:
  "t_propertyId (seedTenant\<lparr>t_propertyId := ''prop-999''\<rparr>) \<notin> p_id ` set [seedProperty]
   \<and> \<not> t_archive (seedTenant\<lparr>t_propertyId := ''prop-999''\<rparr>)
   \<and> \<not> isEffectivelyArchived [seedProperty] (seedTenant\<lparr>t_propertyId := ''prop-999''\<rparr>)
   \<and> \<not> isTenantEffectivelyArchived_AlertsTodo [seedProperty]
          (Some (seedTenant\<lparr>t_propertyId := ''prop-999''\<rparr>))"
  by (simp add: isEffectivelyArchived_def isTenantEffectivelyArchived_AlertsTodo_def
      getPropertyArchivedStatus_AlertsTodo_def getPropertyArchivedStatus_def
      seedProperty_def seedTenant_def)

text \<open>
  C2, amended. For a tenant whose \<^verbatim>\<open>propertyId\<close> matches no property of the snapshot,
  the effective archival status is the tenant's own flag (so it is false when the flag is
  not set). What fails closed is the tenant reference: an undefined tenant counts as
  archived.
\<close>

theorem missing_property_gives_own_flag:
  assumes "t_propertyId t \<notin> p_id ` set props"
  shows "isEffectivelyArchived props t = t_archive t
       \<and> isTenantEffectivelyArchived props (Some t) = t_archive t
       \<and> isTenantEffectivelyArchived_AlertsTodo props (Some t) = t_archive t
       \<and> isTenantEffectivelyArchived props None
       \<and> isTenantEffectivelyArchived_AlertsTodo props None"
  using getPropertyArchivedStatus_missing [OF assms]
  by (simp add: isEffectivelyArchived_def isTenantEffectivelyArchived_def
      isTenantEffectivelyArchived_AlertsTodo_def getPropertyArchivedStatus_AlertsTodo_eq)

theorem missing_property_gives_own_flag_witness:
  "t_propertyId (seedTenant\<lparr>t_propertyId := ''prop-999''\<rparr>) \<notin> p_id ` set [seedProperty]
   \<and> isEffectivelyArchived [seedProperty] (seedTenant\<lparr>t_propertyId := ''prop-999''\<rparr>)
       = t_archive (seedTenant\<lparr>t_propertyId := ''prop-999''\<rparr>)
   \<and> isTenantEffectivelyArchived_AlertsTodo [seedProperty] None"
proof -
  have h: "t_propertyId (seedTenant\<lparr>t_propertyId := ''prop-999''\<rparr>) \<notin> p_id ` set [seedProperty]"
    by (simp add: seedProperty_def)
  show ?thesis
    using h missing_property_gives_own_flag [OF h] by blast
qed

section \<open>Repositories: lookup by id\<close>

lemma findIndex_None_iff: "(findIndex P xs = None) = (\<forall>x \<in> set xs. \<not> P x)"
  by (induction xs) auto

lemma findIndex_absent: "k \<notin> f ` set xs \<Longrightarrow> findIndex (\<lambda>x. f x = k) xs = None"
  by (auto simp: findIndex_None_iff)

lemma findIndex_list_update:
  "findIndex P xs = Some i \<Longrightarrow> P e \<Longrightarrow> findIndex P (xs[i := e]) = Some i"
  by (induction xs arbitrary: i) (auto split: if_splits)

lemma filter_ids_unchanged: "k \<notin> f ` set xs \<Longrightarrow> filter (\<lambda>x. f x \<noteq> k) xs = xs"
  by (induction xs) auto

lemma find_Some_if_exists: "\<exists>x \<in> set xs. P x \<Longrightarrow> \<exists>y. find P xs = Some y"
  by (cases "find P xs") (auto simp: find_None_iff)

lemma filter_empty_if_none: "\<not> (\<exists>x \<in> set xs. P x) \<Longrightarrow> filter P xs = []"
  by (induction xs) auto

section \<open>Registration\<close>

lemma db_addUser_taken:
  assumes "dbReady s" and "\<exists>u \<in> set (users s). sameUsername lc u usr"
  shows "db_addUser lc usr s =
           (Inr \<lparr>success = False, message = Some ''Username is already taken.''\<rparr>,
            logCall (Get ''users'') s)"
proof -
  obtain y where
    "find (\<lambda>u. toLowerCase lc (u_username u) = toLowerCase lc (u_username usr)) (users s) = Some y"
    using find_Some_if_exists
            [of "users s" "\<lambda>u. toLowerCase lc (u_username u) = toLowerCase lc (u_username usr)"]
          assms(2)
    by (auto simp: sameUsername_def)
  then show ?thesis
    using assms(1) by (simp add: db_addUser_def db_getUsers_def ensureDbReady_def)
qed

lemma db_addUser_fresh:
  assumes "dbReady s" and "\<not> (\<exists>u \<in> set (users s). sameUsername lc u usr)"
  shows "db_addUser lc usr s =
           (Inr \<lparr>success = True, message = None\<rparr>,
            logCall (Set ''users'') ((logCall (Get ''users'') s)\<lparr>users := users s @ [usr]\<rparr>))"
proof -
  have "find (\<lambda>u. toLowerCase lc (u_username u) = toLowerCase lc (u_username usr)) (users s) = None"
    using assms(2) by (auto simp: find_None_iff sameUsername_def)
  then show ?thesis
    using assms(1) by (simp add: db_addUser_def db_getUsers_def ensureDbReady_def logCall_def)
qed

lemma register_twice:
  assumes "dbReady s"
    and "length (filter (\<lambda>u. sameUsername lc u usr) (users s)) \<le> 1"
    and "sameUsername lc usr2 usr"
  shows "length (filter (\<lambda>u. sameUsername lc u usr)
            (users (snd (db_addUser lc usr2 (snd (db_addUser lc usr s)))))) = 1"
proof (cases "\<exists>u \<in> set (users s). sameUsername lc u usr")
  case True
  let ?s1 = "logCall (Get ''users'') s"
  have r1: "dbReady ?s1" and u1: "users ?s1 = users s"
    using assms(1) by (simp_all add: logCall_def)
  have ex2: "\<exists>u \<in> set (users ?s1). sameUsername lc u usr2"
    using True assms(3) u1 by (auto simp: sameUsername_def)
  have "filter (\<lambda>u. sameUsername lc u usr) (users s) \<noteq> []"
    using True by (auto simp: filter_empty_conv)
  then have "length (filter (\<lambda>u. sameUsername lc u usr) (users s)) = 1"
    using assms(2) by (cases "filter (\<lambda>u. sameUsername lc u usr) (users s)") auto
  then show ?thesis
    using db_addUser_taken [OF assms(1) True] db_addUser_taken [OF r1 ex2]
    by (simp add: logCall_def)
next
  case False
  let ?s1 = "logCall (Set ''users'') ((logCall (Get ''users'') s)\<lparr>users := users s @ [usr]\<rparr>)"
  have r1: "dbReady ?s1" and u1: "users ?s1 = users s @ [usr]"
    using assms(1) by (simp_all add: logCall_def)
  have ex2: "\<exists>u \<in> set (users ?s1). sameUsername lc u usr2"
    using assms(3) u1 by (auto simp: sameUsername_def)
  have "filter (\<lambda>u. sameUsername lc u usr) (users s) = []"
    using False by (rule filter_empty_if_none)
  then show ?thesis
    using db_addUser_fresh [OF assms(1) False] db_addUser_taken [OF r1 ex2]
    by (simp add: logCall_def sameUsername_def)
qed

text \<open>
  C7. On an open database, and whatever the lower-casing of the runtime does to the
  strings that are not ASCII, \<^verbatim>\<open>addUser\<close> of a user whose username equals, ignoring case,
  the username of a stored user answers \<^verbatim>\<open>{ success: false, message: 'Username is
  already taken.' }\<close> and leaves the store as it was but for the one \<^verbatim>\<open>get\<close> it logged:
  no \<^verbatim>\<open>set\<close>, the users unchanged. And after two registrations of the same username, in a
  collection that held it at most once, exactly one record has that username.
\<close>

theorem addUser_duplicate_username:
  assumes "dbReady s"
  shows "((\<exists>u \<in> set (users s). sameUsername unicodeLower u usr) \<longrightarrow>
            db_addUser unicodeLower usr s =
              (Inr \<lparr>success = False, message = Some ''Username is already taken.''\<rparr>,
               logCall (Get ''users'') s)
            \<and> users (snd (db_addUser unicodeLower usr s)) = users s)
       \<and> (length (filter (\<lambda>u. sameUsername unicodeLower u usr) (users s)) \<le> 1
            \<and> sameUsername unicodeLower usr2 usr \<longrightarrow>
            length (filter (\<lambda>u. sameUsername unicodeLower u usr)
              (users (snd (db_addUser unicodeLower usr2 (snd (db_addUser unicodeLower usr s))))))
              = 1)"
proof (intro conjI impI)
  assume ex: "\<exists>u \<in> set (users s). sameUsername unicodeLower u usr"
  show "db_addUser unicodeLower usr s =
          (Inr \<lparr>success = False, message = Some ''Username is already taken.''\<rparr>,
           logCall (Get ''users'') s)"
    using db_addUser_taken [OF assms ex] .
  then show "users (snd (db_addUser unicodeLower usr s)) = users s"
    by (simp add: logCall_def)
next
  assume "length (filter (\<lambda>u. sameUsername unicodeLower u usr) (users s)) \<le> 1
            \<and> sameUsername unicodeLower usr2 usr"
  then show "length (filter (\<lambda>u. sameUsername unicodeLower u usr)
               (users (snd (db_addUser unicodeLower usr2 (snd (db_addUser unicodeLower usr s))))))
               = 1"
    using register_twice [OF assms] by blast
qed

lemma toLowerCase_TestUser: "toLowerCase lc ''TestUser'' = ''testuser''"
proof -
  have "list_all (\<lambda>c. (of_char c :: nat) < 128) ''TestUser''"
    and "map asciiLower ''TestUser'' = ''testuser''"
    by code_simp+
  then show ?thesis
    unfolding toLowerCase_def by (simp only: if_True)
qed

lemma toLowerCase_testuser: "toLowerCase lc ''testuser'' = ''testuser''"
proof -
  have "list_all (\<lambda>c. (of_char c :: nat) < 128) ''testuser''"
    and "map asciiLower ''testuser'' = ''testuser''"
    by code_simp+
  then show ?thesis
    unfolding toLowerCase_def by (simp only: if_True)
qed

lemma sameUsername_TestUser:
  "sameUsername lc seedUser (seedUser\<lparr>u_id := ''user-002'', u_username := ''TestUser''\<rparr>)"
  unfolding sameUsername_def seedUser_def
  by (simp only: user.simps toLowerCase_TestUser toLowerCase_testuser)

text \<open>
  The witness takes the identity for the lower-casing beyond ASCII, which its ASCII
  usernames never reach.
\<close>

theorem addUser_duplicate_username_witness:
  "dbReady seedStore
   \<and> (\<exists>u \<in> set (users seedStore).
         sameUsername id u (seedUser\<lparr>u_id := ''user-002'', u_username := ''TestUser''\<rparr>))
   \<and> db_addUser id (seedUser\<lparr>u_id := ''user-002'', u_username := ''TestUser''\<rparr>) seedStore =
       (Inr \<lparr>success = False, message = Some ''Username is already taken.''\<rparr>,
        logCall (Get ''users'') seedStore)
   \<and> length (filter (\<lambda>u. sameUsername id u seedUser) (users emptyStore)) \<le> 1
   \<and> sameUsername id (seedUser\<lparr>u_id := ''user-002''\<rparr>) seedUser
   \<and> length (filter (\<lambda>u. sameUsername id u seedUser)
       (users (snd (db_addUser id (seedUser\<lparr>u_id := ''user-002''\<rparr>)
          (snd (db_addUser id seedUser emptyStore)))))) = 1"
proof -
  have r: "dbReady seedStore" and r0: "dbReady emptyStore"
    by (simp_all add: seedStore_def emptyStore_def)
  have ex: "\<exists>u \<in> set (users seedStore).
              sameUsername id u (seedUser\<lparr>u_id := ''user-002'', u_username := ''TestUser''\<rparr>)"
    using sameUsername_TestUser by (simp add: seedStore_def)
  have le: "length (filter (\<lambda>u. sameUsername id u seedUser) (users emptyStore)) \<le> 1"
    by (simp add: emptyStore_def)
  have same: "sameUsername id (seedUser\<lparr>u_id := ''user-002''\<rparr>) seedUser"
    by (simp add: sameUsername_def)
  show ?thesis
    using r ex le same
      addUser_duplicate_username
        [OF r, of id "seedUser\<lparr>u_id := ''user-002'', u_username := ''TestUser''\<rparr>"]
      addUser_duplicate_username [OF r0, of id seedUser "seedUser\<lparr>u_id := ''user-002''\<rparr>"]
    by blast
qed

section \<open>Update and delete of an unknown id\<close>

text \<open>
  C8, as stated, fails for the users: \<^verbatim>\<open>updateUser\<close> of a record whose id is not stored
  answers with a failure, \<^verbatim>\<open>{ success: false, message: 'User not found.' }\<close>, which
  \<^verbatim>\<open>updateProfile\<close> turns into the error shown to the user.
\<close>

theorem updateUser_unknown_counterexample:
  "u_id (seedUser\<lparr>u_id := ''user-404''\<rparr>) \<notin> u_id ` set (users seedStore)
   \<and> fst (db_updateUser (seedUser\<lparr>u_id := ''user-404''\<rparr>) seedStore)
       = Inr \<lparr>success = False, message = Some ''User not found.''\<rparr>"
  by (simp add: db_updateUser_def db_getUsers_def ensureDbReady_def logCall_def seedStore_def
      seedUser_def)

text \<open>
  C8, amended. On an open database, \<^verbatim>\<open>update\<close> of a property, tenant, payment or todo
  whose id is not in its collection returns normally, and the store afterwards is the one
  before with one \<^verbatim>\<open>get\<close> more in its log: nothing is written and every collection is
  unchanged. \<^verbatim>\<open>delete\<close> of an unknown id does the same for these four collections (users
  have no delete). \<^verbatim>\<open>updateUser\<close> of an unknown id writes nothing either, and reports
  the failure \<^verbatim>\<open>'User not found.'\<close> in its result.
\<close>

theorem unknown_id_writes_nothing:
  assumes "dbReady s"
  shows "(u_id u \<notin> u_id ` set (users s) \<longrightarrow>
            db_updateUser u s =
              (Inr \<lparr>success = False, message = Some ''User not found.''\<rparr>,
               logCall (Get ''users'') s))
       \<and> (p_id p \<notin> p_id ` set (properties s) \<longrightarrow>
            db_updateProperty p s = (Inr (), logCall (Get ''properties'') s))
       \<and> (t_id t \<notin> t_id ` set (tenants s) \<longrightarrow>
            db_updateTenant t s = (Inr (), logCall (Get ''tenants'') s))
       \<and> (r_id r \<notin> r_id ` set (payments s) \<longrightarrow>
            db_updatePayment r s = (Inr (), logCall (Get ''payments'') s))
       \<and> (d_id d \<notin> d_id ` set (todos s) \<longrightarrow>
            db_updateTodo d s = (Inr (), logCall (Get ''todos'') s))
       \<and> (k \<notin> p_id ` set (properties s) \<longrightarrow>
            db_deleteProperty k s = (Inr (), logCall (Get ''properties'') s))
       \<and> (k \<notin> t_id ` set (tenants s) \<longrightarrow>
            db_deleteTenant k s = (Inr (), logCall (Get ''tenants'') s))
       \<and> (k \<notin> r_id ` set (payments s) \<longrightarrow>
            db_deletePayment k s = (Inr (), logCall (Get ''payments'') s))
       \<and> (k \<notin> d_id ` set (todos s) \<longrightarrow>
            db_deleteTodo k s = (Inr (), logCall (Get ''todos'') s))
       \<and> collections (logCall c s) = collections s
       \<and> calls (logCall c s) = calls s @ [c]"
  using assms
  by (simp add: db_updateUser_def db_getUsers_def db_updateProperty_def db_getProperties_def
      db_updateTenant_def db_getTenants_def db_updatePayment_def db_getPayments_def
      db_updateTodo_def db_getTodos_def db_deleteProperty_def db_deleteTenant_def
      db_deletePayment_def db_deleteTodo_def ensureDbReady_def logCall_def collections_def
      findIndex_absent filter_ids_unchanged)

theorem unknown_id_writes_nothing_witness:
  "dbReady seedStore
   \<and> u_id (seedUser\<lparr>u_id := ''x-404''\<rparr>) \<notin> u_id ` set (users seedStore)
   \<and> db_updateUser (seedUser\<lparr>u_id := ''x-404''\<rparr>) seedStore =
       (Inr \<lparr>success = False, message = Some ''User not found.''\<rparr>,
        logCall (Get ''users'') seedStore)
   \<and> p_id (seedProperty\<lparr>p_id := ''x-404''\<rparr>) \<notin> p_id ` set (properties seedStore)
   \<and> db_updateProperty (seedProperty\<lparr>p_id := ''x-404''\<rparr>) seedStore =
       (Inr (), logCall (Get ''properties'') seedStore)
   \<and> t_id (seedTenant\<lparr>t_id := ''x-404''\<rparr>) \<notin> t_id ` set (tenants seedStore)
   \<and> db_updateTenant (seedTenant\<lparr>t_id := ''x-404''\<rparr>) seedStore =
       (Inr (), logCall (Get ''tenants'') seedStore)
   \<and> r_id (seedPayment\<lparr>r_id := ''x-404''\<rparr>) \<notin> r_id ` set (payments seedStore)
   \<and> db_updatePayment (seedPayment\<lparr>r_id := ''x-404''\<rparr>) seedStore =
       (Inr (), logCall (Get ''payments'') seedStore)
   \<and> d_id (seedTodo\<lparr>d_id := ''x-404''\<rparr>) \<notin> d_id ` set (todos seedStore)
   \<and> db_updateTodo (seedTodo\<lparr>d_id := ''x-404''\<rparr>) seedStore =
       (Inr (), logCall (Get ''todos'') seedStore)
   \<and> ''x-404'' \<notin> p_id ` set (properties seedStore)
   \<and> db_deleteProperty ''x-404'' seedStore = (Inr (), logCall (Get ''properties'') seedStore)
   \<and> ''x-404'' \<notin> t_id ` set (tenants seedStore)
   \<and> db_deleteTenant ''x-404'' seedStore = (Inr (), logCall (Get ''tenants'') seedStore)
   \<and> ''x-404'' \<notin> r_id ` set (payments seedStore)
   \<and> db_deletePayment ''x-404'' seedStore = (Inr (), logCall (Get ''payments'') seedStore)
   \<and> ''x-404'' \<notin> d_id ` set (todos seedStore)
   \<and> db_deleteTodo ''x-404'' seedStore = (Inr (), logCall (Get ''todos'') seedStore)"
proof -
  have r: "dbReady seedStore"
    by (simp add: seedStore_def)
  have u: "u_id (seedUser\<lparr>u_id := ''x-404''\<rparr>) \<notin> u_id ` set (users seedStore)"
    by (simp add: seedStore_def seedUser_def)
  have p: "p_id (seedProperty\<lparr>p_id := ''x-404''\<rparr>) \<notin> p_id ` set (properties seedStore)"
    and pk: "''x-404'' \<notin> p_id ` set (properties seedStore)"
    by (simp_all add: seedStore_def seedProperty_def)
  have t: "t_id (seedTenant\<lparr>t_id := ''x-404''\<rparr>) \<notin> t_id ` set (tenants seedStore)"
    and tk: "''x-404'' \<notin> t_id ` set (tenants seedStore)"
    by (simp_all add: seedStore_def seedTenant_def)
  have q: "r_id (seedPayment\<lparr>r_id := ''x-404''\<rparr>) \<notin> r_id ` set (payments seedStore)"
    and qk: "''x-404'' \<notin> r_id ` set (payments seedStore)"
    by (simp_all add: seedStore_def seedPayment_def)
  have d: "d_id (seedTodo\<lparr>d_id := ''x-404''\<rparr>) \<notin> d_id ` set (todos seedStore)"
    and dk: "''x-404'' \<notin> d_id ` set (todos seedStore)"
    by (simp_all add: seedStore_def seedTodo_def)
  show ?thesis
    using r u p pk t tk q qk d dk
      unknown_id_writes_nothing [OF r, of "seedUser\<lparr>u_id := ''x-404''\<rparr>"
        "seedProperty\<lparr>p_id := ''x-404''\<rparr>" "seedTenant\<lparr>t_id := ''x-404''\<rparr>"
        "seedPayment\<lparr>r_id := ''x-404''\<rparr>" "seedTodo\<lparr>d_id := ''x-404''\<rparr>" "''x-404''"]
    by blast
qed

section \<open>Idempotence of update\<close>

lemma db_updateUser_twice:
  "collections (snd (db_updateUser u (snd (db_updateUser u s))))
     = collections (snd (db_updateUser u s))"
  by (auto simp: db_updateUser_def db_getUsers_def ensureDbReady_def logCall_def
      collections_def findIndex_list_update split: option.splits)

lemma db_updateProperty_twice:
  "collections (snd (db_updateProperty p (snd (db_updateProperty p s))))
     = collections (snd (db_updateProperty p s))"
  by (auto simp: db_updateProperty_def db_getProperties_def ensureDbReady_def logCall_def
      collections_def findIndex_list_update split: option.splits)

lemma db_updateTenant_twice:
  "collections (snd (db_updateTenant t (snd (db_updateTenant t s))))
     = collections (snd (db_updateTenant t s))"
  by (auto simp: db_updateTenant_def db_getTenants_def ensureDbReady_def logCall_def
      collections_def findIndex_list_update split: option.splits)

lemma db_updatePayment_twice:
  "collections (snd (db_updatePayment r (snd (db_updatePayment r s))))
     = collections (snd (db_updatePayment r s))"
  by (auto simp: db_updatePayment_def db_getPayments_def ensureDbReady_def logCall_def
      collections_def findIndex_list_update split: option.splits)

lemma db_updateTodo_twice:
  "collections (snd (db_updateTodo d (snd (db_updateTodo d s))))
     = collections (snd (db_updateTodo d s))"
  by (auto simp: db_updateTodo_def db_getTodos_def ensureDbReady_def logCall_def
      collections_def findIndex_list_update split: option.splits)

text \<open>
  C9. For each of the five repositories and every store, \<^verbatim>\<open>update(e)\<close> twice in
  sequence leaves the same five collections as \<^verbatim>\<open>update(e)\<close> once.
\<close>

theorem update_idempotent:
  "collections (snd (db_updateUser u (snd (db_updateUser u s))))
     = collections (snd (db_updateUser u s))
   \<and> collections (snd (db_updateProperty p (snd (db_updateProperty p s))))
     = collections (snd (db_updateProperty p s))
   \<and> collections (snd (db_updateTenant t (snd (db_updateTenant t s))))
     = collections (snd (db_updateTenant t s))
   \<and> collections (snd (db_updatePayment r (snd (db_updatePayment r s))))
     = collections (snd (db_updatePayment r s))
   \<and> collections (snd (db_updateTodo d (snd (db_updateTodo d s))))
     = collections (snd (db_updateTodo d s))"
  using db_updateUser_twice db_updateProperty_twice db_updateTenant_twice
    db_updatePayment_twice db_updateTodo_twice
  by blast

text \<open>An update of a stored id does write: the sample tenant with a new rent replaces the old record.\<close>

lemma db_updateTenant_sample:
  "tenants (snd (db_updateTenant (seedTenant\<lparr>t_rent := 1000\<rparr>) seedStore))
     = [seedTenant\<lparr>t_rent := 1000\<rparr>]
   \<and> calls (snd (db_updateTenant (seedTenant\<lparr>t_rent := 1000\<rparr>) seedStore))
     = [Get ''tenants'', Set ''tenants'']"
  by (simp add: db_updateTenant_def db_getTenants_def ensureDbReady_def logCall_def
      seedStore_def seedTenant_def)

section \<open>Recording a payment\<close>

lemma addOrUpdatePayment_missing:
  "\<not> detailsFilled v \<Longrightarrow> addOrUpdatePayment env v s = (Inl MissingPaymentDetails, v, s)"
  by (auto simp: addOrUpdatePayment_def detailsFilled_def)

lemma addOrUpdatePayment_archived:
  assumes "detailsFilled v"
    and "isTenantEffectivelyArchived (rt_properties v) (selectedTenant v)"
  shows "addOrUpdatePayment env v s = (Inl TenantArchived, v, s)"
  using assms
  by (auto simp: addOrUpdatePayment_def detailsFilled_def selectedTenant_def falsy_def
      split: option.splits)

lemma addOrUpdatePayment_partial:
  assumes "detailsFilled v"
    and "\<not> isTenantEffectivelyArchived (rt_properties v) (selectedTenant v)"
    and "selectedTenant v = Some tnt"
    and "n_status (newPayment v) = Some ''partial''"
    and "n_amount (newPayment v) = Some amount"
    and "amount \<ge> t_rent tnt"
  shows "addOrUpdatePayment env v s = (Inl (PartialNotBelowRent amount (t_rent tnt)), v, s)"
  using assms
  by (auto simp: addOrUpdatePayment_def detailsFilled_def selectedTenant_def falsy_def
      split: option.splits)

text \<open>
  C4, as stated, fails: a request for a tenant in an archived property that lacks a
  detail (here the date) is turned down with the alert for missing details, not with the
  one for an archived tenant.
\<close>

theorem archived_tenant_missing_date_counterexample:
  "isTenantEffectivelyArchived [seedProperty\<lparr>p_archive := True\<rparr>]
     (selectedTenant (sampleTracking\<lparr>rt_properties := [seedProperty\<lparr>p_archive := True\<rparr>],
        newPayment := sampleForm\<lparr>n_date := Some []\<rparr>\<rparr>))
   \<and> fst (addOrUpdatePayment sampleBrowser
        (sampleTracking\<lparr>rt_properties := [seedProperty\<lparr>p_archive := True\<rparr>],
           newPayment := sampleForm\<lparr>n_date := Some []\<rparr>\<rparr>) seedStore)
       = Inl MissingPaymentDetails
   \<and> fst (addOrUpdatePayment sampleBrowser
        (sampleTracking\<lparr>rt_properties := [seedProperty\<lparr>p_archive := True\<rparr>],
           newPayment := sampleForm\<lparr>n_date := Some []\<rparr>\<rparr>) seedStore)
       \<noteq> Inl TenantArchived"
  by (simp add: addOrUpdatePayment_def falsy_def selectedTenant_def isTenantEffectivelyArchived_def
      getPropertyArchivedStatus_def sampleTracking_def sampleForm_def seedTenant_def seedProperty_def)

text \<open>
  C4, amended. A request to record a payment whose details are all filled in and whose
  tenant is effectively archived, or does not resolve, is turned down with the alert for
  an archived tenant; when a detail is missing it is turned down with the alert for
  missing details. Either way the view and the store, call log included, are as before:
  no storage call was made and the payments are unchanged.
\<close>

theorem payment_for_archived_tenant_rejected:
  assumes "isTenantEffectivelyArchived (rt_properties v) (selectedTenant v)"
  shows "(detailsFilled v \<longrightarrow> addOrUpdatePayment env v s = (Inl TenantArchived, v, s))
       \<and> (\<not> detailsFilled v \<longrightarrow> addOrUpdatePayment env v s = (Inl MissingPaymentDetails, v, s))
       \<and> snd (snd (addOrUpdatePayment env v s)) = s"
  using addOrUpdatePayment_archived [OF _ assms, of env s] addOrUpdatePayment_missing [of v env s]
  by (cases "detailsFilled v") simp_all

theorem payment_for_archived_tenant_rejected_witness:
  "isTenantEffectivelyArchived (rt_properties (sampleTracking\<lparr>rt_properties := [seedProperty\<lparr>p_archive := True\<rparr>]\<rparr>))
     (selectedTenant (sampleTracking\<lparr>rt_properties := [seedProperty\<lparr>p_archive := True\<rparr>]\<rparr>))
   \<and> detailsFilled (sampleTracking\<lparr>rt_properties := [seedProperty\<lparr>p_archive := True\<rparr>]\<rparr>)
   \<and> addOrUpdatePayment sampleBrowser
        (sampleTracking\<lparr>rt_properties := [seedProperty\<lparr>p_archive := True\<rparr>]\<rparr>) seedStore
       = (Inl TenantArchived, sampleTracking\<lparr>rt_properties := [seedProperty\<lparr>p_archive := True\<rparr>]\<rparr>,
          seedStore)
   \<and> isTenantEffectivelyArchived (rt_properties (sampleTracking\<lparr>newPayment := sampleForm\<lparr>n_tenantId := Some []\<rparr>\<rparr>))
     (selectedTenant (sampleTracking\<lparr>newPayment := sampleForm\<lparr>n_tenantId := Some []\<rparr>\<rparr>))
   \<and> \<not> detailsFilled (sampleTracking\<lparr>newPayment := sampleForm\<lparr>n_tenantId := Some []\<rparr>\<rparr>)
   \<and> addOrUpdatePayment sampleBrowser
        (sampleTracking\<lparr>newPayment := sampleForm\<lparr>n_tenantId := Some []\<rparr>\<rparr>) seedStore
       = (Inl MissingPaymentDetails, sampleTracking\<lparr>newPayment := sampleForm\<lparr>n_tenantId := Some []\<rparr>\<rparr>,
          seedStore)"
proof -
  let ?v = "sampleTracking\<lparr>rt_properties := [seedProperty\<lparr>p_archive := True\<rparr>]\<rparr>"
  let ?w = "sampleTracking\<lparr>newPayment := sampleForm\<lparr>n_tenantId := Some []\<rparr>\<rparr>"
  have a: "isTenantEffectivelyArchived (rt_properties ?v) (selectedTenant ?v)"
    by (simp add: selectedTenant_def isTenantEffectivelyArchived_def getPropertyArchivedStatus_def
        sampleTracking_def sampleForm_def seedTenant_def seedProperty_def)
  have f: "detailsFilled ?v"
    by (simp add: detailsFilled_def falsy_def sampleTracking_def sampleForm_def)
  have b: "isTenantEffectivelyArchived (rt_properties ?w) (selectedTenant ?w)"
    by (simp add: selectedTenant_def isTenantEffectivelyArchived_def
        sampleTracking_def sampleForm_def seedTenant_def)
  have g: "\<not> detailsFilled ?w"
    by (simp add: detailsFilled_def falsy_def sampleTracking_def sampleForm_def)
  show ?thesis
    using a f b g
      payment_for_archived_tenant_rejected [OF a, of sampleBrowser seedStore]
      payment_for_archived_tenant_rejected [OF b, of sampleBrowser seedStore]
    by blast
qed

text \<open>
  C10. A submission with status \<^verbatim>\<open>'partial'\<close> whose amount is at least the rent of the
  tenant it selects is turned down with an alert: for a missing detail, for an archived
  tenant, or else for the partial amount that is not below the rent. The view and the
  store, call log included, are as before, so no storage call was made and the payments
  are unchanged.
\<close>

theorem partial_payment_not_below_rent_rejected:
  assumes "n_status (newPayment v) = Some ''partial''"
    and "n_amount (newPayment v) = Some amount"
    and "selectedTenant v = Some tnt"
    and "amount \<ge> t_rent tnt"
  shows "addOrUpdatePayment env v s =
           (Inl (if \<not> detailsFilled v then MissingPaymentDetails
                 else if isTenantEffectivelyArchived (rt_properties v) (Some tnt) then TenantArchived
                 else PartialNotBelowRent amount (t_rent tnt)), v, s)"
proof (cases "detailsFilled v")
  case False
  then show ?thesis
    using addOrUpdatePayment_missing by simp
next
  case True
  show ?thesis
  proof (cases "isTenantEffectivelyArchived (rt_properties v) (Some tnt)")
    case arch: True
    then show ?thesis
      using True assms(3) addOrUpdatePayment_archived [OF True, of env s] by simp
  next
    case arch: False
    then show ?thesis
      using True assms addOrUpdatePayment_partial [OF True _ assms(3,1,2,4), of env s] by simp
  qed
qed

theorem partial_payment_not_below_rent_rejected_witness:
  "n_status (newPayment (sampleTracking\<lparr>newPayment := sampleForm\<lparr>n_status := Some ''partial''\<rparr>\<rparr>))
     = Some ''partial''
   \<and> n_amount (newPayment (sampleTracking\<lparr>newPayment := sampleForm\<lparr>n_status := Some ''partial''\<rparr>\<rparr>))
     = Some 950
   \<and> selectedTenant (sampleTracking\<lparr>newPayment := sampleForm\<lparr>n_status := Some ''partial''\<rparr>\<rparr>)
     = Some seedTenant
   \<and> 950 \<ge> t_rent seedTenant
   \<and> addOrUpdatePayment sampleBrowser
        (sampleTracking\<lparr>newPayment := sampleForm\<lparr>n_status := Some ''partial''\<rparr>\<rparr>) seedStore
       = (Inl (PartialNotBelowRent 950 950),
          sampleTracking\<lparr>newPayment := sampleForm\<lparr>n_status := Some ''partial''\<rparr>\<rparr>, seedStore)"
proof -
  let ?v = "sampleTracking\<lparr>newPayment := sampleForm\<lparr>n_status := Some ''partial''\<rparr>\<rparr>"
  have st: "n_status (newPayment ?v) = Some ''partial''"
    by simp
  have am: "n_amount (newPayment ?v) = Some 950"
    by (simp add: sampleForm_def)
  have sel: "selectedTenant ?v = Some seedTenant"
    by (simp add: selectedTenant_def sampleTracking_def sampleForm_def seedTenant_def)
  have ge: "950 \<ge> t_rent seedTenant"
    by (simp add: seedTenant_def)
  have f: "detailsFilled ?v"
    by (simp add: detailsFilled_def falsy_def sampleTracking_def sampleForm_def)
  have na: "\<not> isTenantEffectivelyArchived (rt_properties ?v) (Some seedTenant)"
    by (simp add: isTenantEffectivelyArchived_def getPropertyArchivedStatus_def
        sampleTracking_def seedTenant_def seedProperty_def)
  have r: "t_rent seedTenant = 950"
    by (simp add: seedTenant_def)
  show ?thesis
    using st am sel ge f na r
      partial_payment_not_below_rent_rejected [OF st am sel ge, of sampleBrowser seedStore]
    by simp
qed


section \<open>Monthly rent summary\<close>














section \<open>Deleting a tenant\<close>

lemma filter_not_shorter: "\<not> length (filter P xs) < length xs \<Longrightarrow> filter P xs = xs"
  by (induction xs)
     (auto simp: less_Suc_eq_le [symmetric] intro: le_less_trans [OF length_filter_le])

lemma filter_ids_of_filter:
  assumes "distinct (map f xs)"
  shows "filter (\<lambda>p. f p \<notin> f ` set (filter Q xs)) xs = filter (\<lambda>p. \<not> Q p) xs"
proof (rule filter_cong [OF refl])
  fix p assume p: "p \<in> set xs"
  have inj: "inj_on f (set xs)"
    using assms by (simp add: distinct_map)
  show "(f p \<notin> f ` set (filter Q xs)) = (\<not> Q p)"
    using p inj by (auto simp: inj_on_def)
qed

lemma db_deletePayment_ready:
  assumes "dbReady s"
  shows "\<exists>s' cs. db_deletePayment k s = (Inr (), s') \<and> othersKept s s' \<and> tenants s' = tenants s
           \<and> payments s' = filter (\<lambda>p. r_id p \<noteq> k) (payments s)
           \<and> calls s' = calls s @ cs \<and> set cs \<subseteq> {Get ''payments'', Set ''payments''}"
proof (cases "length (filter (\<lambda>p. r_id p \<noteq> k) (payments s)) < length (payments s)")
  case True
  then show ?thesis
    using assms
    by (simp add: db_deletePayment_def db_getPayments_def ensureDbReady_def logCall_def
        othersKept_def)
next
  case False
  then show ?thesis
    using assms filter_not_shorter [OF False]
    by (simp add: db_deletePayment_def db_getPayments_def ensureDbReady_def logCall_def
        othersKept_def)
qed

lemma deletePayments_ready:
  assumes "dbReady s"
  shows "\<exists>s' cs. deletePayments ps s = (Inr (), s') \<and> othersKept s s' \<and> tenants s' = tenants s
           \<and> payments s' = filter (\<lambda>p. r_id p \<notin> r_id ` set ps) (payments s)
           \<and> calls s' = calls s @ cs \<and> set cs \<subseteq> {Get ''payments'', Set ''payments''}"
  using assms
proof (induction ps arbitrary: s)
  case Nil
  then show ?case by (simp add: othersKept_def)
next
  case (Cons p ps)
  obtain s1 cs1 where 1: "db_deletePayment (r_id p) s = (Inr (), s1)" "othersKept s s1"
      "tenants s1 = tenants s" "payments s1 = filter (\<lambda>q. r_id q \<noteq> r_id p) (payments s)"
      "calls s1 = calls s @ cs1" "set cs1 \<subseteq> {Get ''payments'', Set ''payments''}"
    using db_deletePayment_ready [OF Cons.prems] by blast
  have r1: "dbReady s1"
    using 1(2) Cons.prems by (simp add: othersKept_def)
  obtain s2 cs2 where 2: "deletePayments ps s1 = (Inr (), s2)" "othersKept s1 s2"
      "tenants s2 = tenants s1"
      "payments s2 = filter (\<lambda>q. r_id q \<notin> r_id ` set ps) (payments s1)"
      "calls s2 = calls s1 @ cs2" "set cs2 \<subseteq> {Get ''payments'', Set ''payments''}"
    using Cons.IH [OF r1] by blast
  have "deletePayments (p # ps) s = (Inr (), s2)"
    using 1(1) 2(1) by simp
  moreover have "othersKept s s2"
    using 1(2) 2(2) by (simp add: othersKept_def)
  moreover have "tenants s2 = tenants s"
    using 1(3) 2(3) by simp
  moreover have "payments s2 = filter (\<lambda>q. r_id q \<notin> r_id ` set (p # ps)) (payments s)"
    using 1(4) 2(4) by (auto intro: filter_cong)
  moreover have "calls s2 = calls s @ (cs1 @ cs2)"
    using 1(5) 2(5) by simp
  moreover have "set (cs1 @ cs2) \<subseteq> {Get ''payments'', Set ''payments''}"
    using 1(6) 2(6) by simp
  ultimately show ?case by blast
qed

lemma deleteTenant_record_ready:
  assumes "dbReady s" and "ident \<in> t_id ` set (tenants s)"
  shows "deleteTenant_record ident v s =
           (Inr (),
            v\<lparr>tl_tenants := filter (\<lambda>t. t_id t \<noteq> ident) (tenants s), tl_payments := payments s\<rparr>,
            s\<lparr>tenants := filter (\<lambda>t. t_id t \<noteq> ident) (tenants s),
              calls := calls s @ [Get ''tenants'', Set ''tenants'', Get ''tenants'',
                                  Get ''payments'']\<rparr>)"
proof -
  have "length (filter (\<lambda>t. t_id t \<noteq> ident) (tenants s)) < length (tenants s)"
    using assms(2) by (auto intro!: length_filter_less)
  then show ?thesis
    using assms(1)
    by (simp add: deleteTenant_record_def db_deleteTenant_def db_getTenants_def
        db_getPayments_def ensureDbReady_def logCall_def)
qed

lemma deleteTenant_declined: "deleteTenant False ident v s = (Inr (), v, s)"
  by (simp add: deleteTenant_def Let_def split: option.splits)

text \<open>
  C5, as stated, fails: the payments to delete are taken from the view's copy of the
  payments. With a copy older than the store (here it lacks the two February payments of
  the tenant), the confirmed deletion removes the tenant's record and leaves those two
  payments in the store, naming a tenant that is gone.
\<close>

theorem deleteTenant_stale_snapshot_counterexample:
  "dbReady cascadeStore
   \<and> ''1'' \<in> t_id ` set (tl_tenants staleList)
   \<and> fst (deleteTenant True ''1'' staleList cascadeStore) = Inr ()
   \<and> ''1'' \<notin> t_id ` set (tenants (snd (snd (deleteTenant True ''1'' staleList cascadeStore))))
   \<and> map r_id (filter (\<lambda>p. r_tenantId p = ''1'')
        (payments (snd (snd (deleteTenant True ''1'' staleList cascadeStore)))))
       = [''pay-002'', ''pay-003'']"
  by (simp add: deleteTenant_def deleteTenant_record_def db_deletePayment_def
      db_deleteTenant_def db_getTenants_def db_getPayments_def ensureDbReady_def logCall_def
      staleList_def cascadeList_def cascadeStore_def seedStore_def febPayments_def
      seedPayment_def seedTenant_def)

text \<open>
  C5, amended. On an open database, with the view's snapshots of tenants and payments equal to the
  stored collections, deleting a stored tenant that the user confirms returns normally
  and
  \<^item> every payment whose id is the id of a payment of that tenant is gone, so no stored
    payment names the tenant any more; when the payment ids are distinct, exactly the
    tenant's \<open>N\<close> payments are gone and the others are kept in their order;
  \<^item> the tenant's record is gone from the tenants, the other records are kept;
  \<^item> users, properties and todos are untouched, and the view holds the new collections;
  \<^item> the calls on the payments come first in the log, then the read and the write of the
    tenants, then the two reads that refresh the view.
\<close>

theorem deleteTenant_cascades:
  assumes ready: "dbReady s"
    and confirmed: "confirmDelete"
    and snap_t: "tl_tenants v = tenants s"
    and snap_p: "tl_payments v = payments s"
    and known: "ident \<in> t_id ` set (tenants s)"
  shows "\<exists>v' s' cs. deleteTenant confirmDelete ident v s = (Inr (), v', s')
     \<and> payments s' =
         filter (\<lambda>p. r_id p \<notin> r_id ` set (filter (\<lambda>p. r_tenantId p = ident) (payments s)))
           (payments s)
     \<and> filter (\<lambda>p. r_tenantId p = ident) (payments s') = []
     \<and> tenants s' = filter (\<lambda>t. t_id t \<noteq> ident) (tenants s)
     \<and> ident \<notin> t_id ` set (tenants s')
     \<and> (distinct (map r_id (payments s)) \<longrightarrow>
           payments s' = filter (\<lambda>p. r_tenantId p \<noteq> ident) (payments s)
           \<and> length (payments s') + length (filter (\<lambda>p. r_tenantId p = ident) (payments s))
               = length (payments s))
     \<and> users s' = users s \<and> properties s' = properties s \<and> todos s' = todos s
     \<and> tl_tenants v' = tenants s' \<and> tl_payments v' = payments s'
     \<and> calls s' = calls s @ cs @ [Get ''tenants'', Set ''tenants'', Get ''tenants'',
                                   Get ''payments'']
     \<and> set cs \<subseteq> {Get ''payments'', Set ''payments''}"
proof -
  let ?assoc = "filter (\<lambda>p. r_tenantId p = ident) (payments s)"
  let ?kept = "filter (\<lambda>p. r_id p \<notin> r_id ` set ?assoc) (payments s)"
  obtain tenantToDelete where
    found: "find (\<lambda>t. t_id t = ident) (tl_tenants v) = Some tenantToDelete"
    using find_Some_if_exists [of "tenants s" "\<lambda>t. t_id t = ident"] known snap_t by auto
  obtain s1 cs where 1: "deletePayments ?assoc s = (Inr (), s1)" "othersKept s s1"
      "tenants s1 = tenants s" "payments s1 = ?kept"
      "calls s1 = calls s @ cs" "set cs \<subseteq> {Get ''payments'', Set ''payments''}"
    using deletePayments_ready [OF ready] by blast
  have r1: "dbReady s1" and k1: "ident \<in> t_id ` set (tenants s1)"
    using 1(2,3) ready known by (simp_all add: othersKept_def)
  let ?v' = "v\<lparr>tl_tenants := filter (\<lambda>t. t_id t \<noteq> ident) (tenants s1),
               tl_payments := payments s1\<rparr>"
  let ?s' = "s1\<lparr>tenants := filter (\<lambda>t. t_id t \<noteq> ident) (tenants s1),
               calls := calls s1 @ [Get ''tenants'', Set ''tenants'', Get ''tenants'',
                                    Get ''payments'']\<rparr>"
  have rec: "deleteTenant_record ident v s1 = (Inr (), ?v', ?s')"
    using deleteTenant_record_ready [OF r1 k1] .
  have run: "deleteTenant confirmDelete ident v s = (Inr (), ?v', ?s')"
  proof (cases "?assoc = []")
    case True
    then have "s1 = s"
      using 1(1) by simp
    then show ?thesis
      using found rec True snap_p confirmed by (simp add: deleteTenant_def)
  next
    case False
    then show ?thesis
      using found rec 1(1) snap_p confirmed by (simp add: deleteTenant_def)
  qed
  have none_left: "filter (\<lambda>p. r_tenantId p = ident) ?kept = []"
    by (auto simp: filter_empty_conv)
  have dist: "distinct (map r_id (payments s)) \<longrightarrow>
                ?kept = filter (\<lambda>p. r_tenantId p \<noteq> ident) (payments s)
                \<and> length ?kept + length ?assoc = length (payments s)"
  proof
    assume d: "distinct (map r_id (payments s))"
    have e: "?kept = filter (\<lambda>p. r_tenantId p \<noteq> ident) (payments s)"
      using filter_ids_of_filter [OF d, of "\<lambda>p. r_tenantId p = ident"] .
    have "length (filter (\<lambda>p. r_tenantId p \<noteq> ident) (payments s)) + length ?assoc
            = length (payments s)"
      using sum_length_filter_compl [of "\<lambda>p. r_tenantId p = ident" "payments s"] by simp
    with e show "?kept = filter (\<lambda>p. r_tenantId p \<noteq> ident) (payments s)
                \<and> length ?kept + length ?assoc = length (payments s)"
      by simp
  qed
  have "payments ?s' = ?kept" "tenants ?s' = filter (\<lambda>t. t_id t \<noteq> ident) (tenants s)"
       "ident \<notin> t_id ` set (tenants ?s')"
       "users ?s' = users s" "properties ?s' = properties s" "todos ?s' = todos s"
       "tl_tenants ?v' = tenants ?s'" "tl_payments ?v' = payments ?s'"
       "calls ?s' = calls s @ cs @ [Get ''tenants'', Set ''tenants'', Get ''tenants'',
                                    Get ''payments'']"
    using 1(2-5) by (auto simp: othersKept_def)
  then show ?thesis
    using run none_left dist 1(6) by (metis (no_types, lifting))
qed

theorem deleteTenant_cascades_witness:
  "dbReady cascadeStore
   \<and> tl_tenants cascadeList = tenants cascadeStore
   \<and> tl_payments cascadeList = payments cascadeStore
   \<and> ''1'' \<in> t_id ` set (tenants cascadeStore)
   \<and> distinct (map r_id (payments cascadeStore))
   \<and> length (filter (\<lambda>p. r_tenantId p = ''1'') (payments cascadeStore)) = 3
   \<and> fst (deleteTenant True ''1'' cascadeList cascadeStore) = Inr ()
   \<and> payments (snd (snd (deleteTenant True ''1'' cascadeList cascadeStore)))
       = [seedPayment\<lparr>r_id := ''pay-009'', r_tenantId := ''2''\<rparr>]
   \<and> tenants (snd (snd (deleteTenant True ''1'' cascadeList cascadeStore)))
       = [seedTenant\<lparr>t_id := ''2''\<rparr>]"
proof -
  have r: "dbReady cascadeStore"
    by (simp add: cascadeStore_def seedStore_def)
  have st: "tl_tenants cascadeList = tenants cascadeStore"
    by (simp add: cascadeList_def)
  have sp: "tl_payments cascadeList = payments cascadeStore"
    by (simp add: cascadeList_def)
  have k: "''1'' \<in> t_id ` set (tenants cascadeStore)"
    by (simp add: cascadeStore_def seedTenant_def)
  have d: "distinct (map r_id (payments cascadeStore))"
    by (simp add: cascadeStore_def febPayments_def seedPayment_def)
  have n: "length (filter (\<lambda>p. r_tenantId p = ''1'') (payments cascadeStore)) = 3"
    by (simp add: cascadeStore_def febPayments_def seedPayment_def)
  have ps: "filter (\<lambda>p. r_tenantId p \<noteq> ''1'') (payments cascadeStore)
              = [seedPayment\<lparr>r_id := ''pay-009'', r_tenantId := ''2''\<rparr>]"
    by (simp add: cascadeStore_def febPayments_def seedPayment_def)
  have ts: "filter (\<lambda>t. t_id t \<noteq> ''1'') (tenants cascadeStore) = [seedTenant\<lparr>t_id := ''2''\<rparr>]"
    by (simp add: cascadeStore_def seedTenant_def)
  obtain v' s' where res: "deleteTenant True ''1'' cascadeList cascadeStore = (Inr (), v', s')"
      and p': "distinct (map r_id (payments cascadeStore)) \<longrightarrow>
                 payments s' = filter (\<lambda>p. r_tenantId p \<noteq> ''1'') (payments cascadeStore)"
      and t': "tenants s' = filter (\<lambda>t. t_id t \<noteq> ''1'') (tenants cascadeStore)"
    using deleteTenant_cascades [OF r TrueI st sp k] by blast
  have "fst (deleteTenant True ''1'' cascadeList cascadeStore) = Inr ()"
       "payments (snd (snd (deleteTenant True ''1'' cascadeList cascadeStore)))
          = [seedPayment\<lparr>r_id := ''pay-009'', r_tenantId := ''2''\<rparr>]"
       "tenants (snd (snd (deleteTenant True ''1'' cascadeList cascadeStore)))
          = [seedTenant\<lparr>t_id := ''2''\<rparr>]"
    using res p' t' d ps ts by simp_all
  then show ?thesis
    using r st sp k d n by blast
qed


section \<open>Latest payment status\<close>

lemma set_insertBy: "set (insertBy cmp x ys) = insert x (set ys)"
  by (induction ys) auto

lemma set_sort_js: "set (sort_js cmp xs) = set xs"
  by (induction xs) (simp_all add: sort_js_def set_insertBy)

lemma sorted_insertBy:
  assumes "\<forall>y \<in> set ys. (cmp x y \<le> 0) = (key y \<le> key x)"
    and "sorted_wrt (\<lambda>a b. key b \<le> (key a :: int)) ys"
  shows "sorted_wrt (\<lambda>a b. key b \<le> key a) (insertBy cmp x ys)"
  using assms
proof (induction ys)
  case Nil
  then show ?case by simp
next
  case (Cons y ys)
  show ?case
  proof (cases "cmp x y \<le> 0")
    case True
    then have "key y \<le> key x"
      using Cons.prems(1) by simp
    then show ?thesis
      using True Cons.prems(2) by (auto intro: order_trans)
  next
    case False
    then have "key x \<le> key y"
      using Cons.prems(1) by auto
    then show ?thesis
      using False Cons by (auto simp: set_insertBy)
  qed
qed

lemma sorted_sort_js:
  assumes "\<forall>x \<in> set xs. \<forall>y \<in> set xs. (cmp x y \<le> 0) = (key y \<le> (key x :: int))"
  shows "sorted_wrt (\<lambda>a b. key b \<le> key a) (sort_js cmp xs)"
  using assms
proof (induction xs)
  case Nil
  then show ?case by (simp add: sort_js_def)
next
  case (Cons x xs)
  have "sorted_wrt (\<lambda>a b. key b \<le> key a) (sort_js cmp xs)"
    using Cons by simp
  moreover have "\<forall>y \<in> set (sort_js cmp xs). (cmp x y \<le> 0) = (key y \<le> key x)"
    using Cons.prems by (simp add: set_sort_js)
  ultimately show ?case
    using sorted_insertBy [of "sort_js cmp xs" cmp x key] by (simp add: sort_js_def)
qed

lemma sort_js_head_greatest:
  assumes "\<forall>x \<in> set xs. \<forall>y \<in> set xs. (cmp x y \<le> 0) = (key y \<le> (key x :: int))"
    and "sort_js cmp xs = p # rest"
  shows "p \<in> set xs \<and> (\<forall>q \<in> set xs. key q \<le> key p)"
proof -
  have s: "sorted_wrt (\<lambda>a b. key b \<le> key a) (p # rest)"
    using sorted_sort_js [OF assms(1)] assms(2) by simp
  have e: "set xs = insert p (set rest)"
    using set_sort_js [of cmp xs] assms(2) by simp
  show ?thesis
    using s e by auto
qed

lemma compareDateDesc_valid:
  "getTime (r_date a) \<noteq> None \<Longrightarrow> getTime (r_date b) \<noteq> None \<Longrightarrow>
   (compareDateDesc getTime a b \<le> 0) = (timeOf getTime b \<le> timeOf getTime a)"
  by (auto simp: compareDateDesc_def timeOf_def)

text \<open>
  What \<^verbatim>\<open>getLatestRentStatus\<close> returns for a tenant of the snapshot: \<^verbatim>\<open>'archive'\<close> when
  the tenant is effectively archived, whatever its payments; \<^verbatim>\<open>'no payments'\<close> when it is
  not and has none; and otherwise, when the dates of its payments are valid, the status
  of one of its payments of greatest date.
\<close>

lemma getLatestRentStatus_cases:
  assumes found: "find (\<lambda>t. t_id t = tenantId) (tl_tenants v) = Some tnt"
  shows "(isEffectivelyArchived (tl_properties v) tnt \<longrightarrow>
            getLatestRentStatus getTime engineSort v tenantId = ''archive'')
    \<and> (\<not> isEffectivelyArchived (tl_properties v) tnt
         \<and> filter (\<lambda>p. r_tenantId p = tenantId) (tl_payments v) = [] \<longrightarrow>
           getLatestRentStatus getTime engineSort v tenantId = ''no payments'')
    \<and> (\<not> isEffectivelyArchived (tl_properties v) tnt
         \<and> filter (\<lambda>p. r_tenantId p = tenantId) (tl_payments v) \<noteq> []
         \<and> (\<forall>p \<in> set (tl_payments v). r_tenantId p = tenantId \<longrightarrow> getTime (r_date p) \<noteq> None) \<longrightarrow>
           (\<exists>p \<in> set (tl_payments v). r_tenantId p = tenantId
               \<and> getLatestRentStatus getTime engineSort v tenantId = r_status p
               \<and> (\<forall>q \<in> set (tl_payments v). r_tenantId q = tenantId \<longrightarrow>
                     timeOf getTime q \<le> timeOf getTime p)))"
proof (intro conjI impI)
  assume "isEffectivelyArchived (tl_properties v) tnt"
  then show "getLatestRentStatus getTime engineSort v tenantId = ''archive''"
    using found by (simp add: getLatestRentStatus_def)
next
  assume "\<not> isEffectivelyArchived (tl_properties v) tnt
         \<and> filter (\<lambda>p. r_tenantId p = tenantId) (tl_payments v) = []"
  then show "getLatestRentStatus getTime engineSort v tenantId = ''no payments''"
    using found by (simp add: getLatestRentStatus_def sort_js_def)
next
  let ?mine = "filter (\<lambda>p. r_tenantId p = tenantId) (tl_payments v)"
  assume a: "\<not> isEffectivelyArchived (tl_properties v) tnt \<and> ?mine \<noteq> []
         \<and> (\<forall>p \<in> set (tl_payments v). r_tenantId p = tenantId \<longrightarrow> getTime (r_date p) \<noteq> None)"
  have "?mine \<noteq> []"
    using a by blast
  then have "set (sort_js (compareDateDesc getTime) ?mine) \<noteq> {}"
    unfolding set_sort_js by (simp only: set_empty not_False_eq_True)
  then obtain p rest where srt: "sort_js (compareDateDesc getTime) ?mine = p # rest"
    by (cases "sort_js (compareDateDesc getTime) ?mine") auto
  have cmp: "\<forall>x \<in> set ?mine. \<forall>y \<in> set ?mine.
               (compareDateDesc getTime x y \<le> 0) = (timeOf getTime y \<le> timeOf getTime x)"
    using a by (auto simp: compareDateDesc_valid)
  have hd: "p \<in> set ?mine \<and> (\<forall>q \<in> set ?mine. timeOf getTime q \<le> timeOf getTime p)"
    using sort_js_head_greatest [OF cmp srt] .
  have valid: "list_all (\<lambda>p. getTime (r_date p) \<noteq> None) ?mine"
    using a by (auto simp: list_all_iff)
  have "getLatestRentStatus getTime engineSort v tenantId = r_status p"
    using found a srt valid by (simp add: getLatestRentStatus_def Let_def)
  then show "\<exists>p \<in> set (tl_payments v). r_tenantId p = tenantId
               \<and> getLatestRentStatus getTime engineSort v tenantId = r_status p
               \<and> (\<forall>q \<in> set (tl_payments v). r_tenantId q = tenantId \<longrightarrow>
                     timeOf getTime q \<le> timeOf getTime p)"
    using hd by auto
qed

lemma getLatestRentStatus_sample:
  "getLatestRentStatus sampleTimes engineSort (sampleList\<lparr>tl_payments := febPayments\<rparr>) ''1''
     = ''partial''"
  by (simp add: getLatestRentStatus_def isEffectivelyArchived_def getPropertyArchivedStatus_def
      sort_js_def compareDateDesc_def sampleTimes_def sampleList_def febPayments_def
      seedPayment_def seedTenant_def seedProperty_def)

text \<open>
  C3. The claim names the sentinel \<^verbatim>\<open>"archived"\<close>; for an effectively archived tenant the
  function returns the string \<^verbatim>\<open>'archive'\<close>. Here the sample tenant, whose own flag is not
  set, lives in an archived property and has a paid payment: the status returned is
  \<^verbatim>\<open>'archive'\<close>, it is not \<^verbatim>\<open>'archived'\<close>, and the class that \<^verbatim>\<open>getRentStatusClass\<close> keeps
  for the status \<^verbatim>\<open>'archived'\<close> does not apply to it.
\<close>

theorem getLatestRentStatus_archived_sentinel:
  "isEffectivelyArchived [seedProperty\<lparr>p_archive := True\<rparr>] seedTenant
   \<and> getLatestRentStatus sampleTimes engineSort
        (sampleList\<lparr>tl_properties := [seedProperty\<lparr>p_archive := True\<rparr>]\<rparr>) ''1'' = ''archive''
   \<and> getLatestRentStatus sampleTimes engineSort
        (sampleList\<lparr>tl_properties := [seedProperty\<lparr>p_archive := True\<rparr>]\<rparr>) ''1'' \<noteq> ''archived''
   \<and> \<not> rentStatusClass_archived unicodeLower (Some (getLatestRentStatus sampleTimes engineSort
        (sampleList\<lparr>tl_properties := [seedProperty\<lparr>p_archive := True\<rparr>]\<rparr>) ''1''))
   \<and> rentStatusClass_archived unicodeLower (Some ''archived'')"
proof -
  have a: "isEffectivelyArchived [seedProperty\<lparr>p_archive := True\<rparr>] seedTenant"
    by (simp add: isEffectivelyArchived_def getPropertyArchivedStatus_def seedProperty_def
        seedTenant_def)
  have r: "getLatestRentStatus sampleTimes engineSort
             (sampleList\<lparr>tl_properties := [seedProperty\<lparr>p_archive := True\<rparr>]\<rparr>) ''1'' = ''archive''"
    using a by (simp add: getLatestRentStatus_def sampleList_def seedTenant_def)
  have "list_all (\<lambda>c. (of_char c :: nat) < 128) ''archive''"
    and "map asciiLower ''archive'' = ''archive''"
    by code_simp+
  then have l: "toLowerCase unicodeLower ''archive'' = ''archive''"
    unfolding toLowerCase_def by (simp only: if_True)
  have "list_all (\<lambda>c. (of_char c :: nat) < 128) ''archived''"
    and "map asciiLower ''archived'' = ''archived''"
    by code_simp+
  then have l': "toLowerCase unicodeLower ''archived'' = ''archived''"
    unfolding toLowerCase_def by (simp only: if_True)
  show ?thesis
    using a r l l' by (simp add: rentStatusClass_archived_def)
qed

end
